theory Spec2Isabelle
  imports Main "HOL-Library.Word"
begin

section \<open>Values of the host language\<close>

text \<open>
  A JavaScript string is a sequence of UTF-16 code units; a \<^verbatim>\<open>Uint8Array\<close> is a
  sequence of bytes. Signal names are ASCII literals and are kept as HOL strings.
  Callbacks (\<^verbatim>\<open>() => void\<close>) are opaque: the facade never calls them, it only hands
  them to the host, so their type is a parameter \<open>'cb\<close>.
\<close>

type_synonym js_string = "16 word list"

type_synonym bytes = "8 word list"

datatype js_error = TypeError string | ReferenceError string | Error string

text \<open>
  How a call ends: it returns a value, it throws, or the process is gone
  (\<^verbatim>\<open>Deno.exit\<close>, \<^verbatim>\<open>process.exit\<close>) and nothing returns. An exit code is an integer.
\<close>

datatype 'a completion = Returned 'a | Threw js_error | Exited int

section \<open>The signal vocabularies\<close>

text \<open>
  The full build (\<^verbatim>\<open>mod.ts\<close> with its Deno and Node classes) declares
  \<^verbatim>\<open>"SIGINT" | "SIGTERM" | "SIGHUP" | "SIGUSR1" | "SIGUSR2" | "SIGINFO"\<close>;
  the restricted build declares \<^verbatim>\<open>"SIGTERM" | "SIGINFO"\<close>.
  A literal-union type is an enumeration; \<open>signal_text\<close> gives the string that the
  literal is at run time.
\<close>

datatype signal_name = SIGINT | SIGTERM | SIGHUP | SIGUSR1 | SIGUSR2 | SIGINFO

datatype restricted_signal_name = Restricted_SIGTERM | Restricted_SIGINFO

fun signal_text :: "signal_name \<Rightarrow> string" where
  "signal_text SIGINT = ''SIGINT''"
| "signal_text SIGTERM = ''SIGTERM''"
| "signal_text SIGHUP = ''SIGHUP''"
| "signal_text SIGUSR1 = ''SIGUSR1''"
| "signal_text SIGUSR2 = ''SIGUSR2''"
| "signal_text SIGINFO = ''SIGINFO''"

fun restricted_signal_text :: "restricted_signal_name \<Rightarrow> string" where
  "restricted_signal_text Restricted_SIGTERM = ''SIGTERM''"
| "restricted_signal_text Restricted_SIGINFO = ''SIGINFO''"

section \<open>Strings as bytes\<close>

text \<open>
  UTF-8 of a string, as the Encoding Standard has it: the string is read as scalar values,
  a lead surrogate followed by a trail surrogate being one supplementary code point and
  any other surrogate code unit becoming U+FFFD, and each scalar value is written in one
  to four bytes.
\<close>

definition is_lead :: "16 word \<Rightarrow> bool" where
  "is_lead c = (0xD800 \<le> unat c \<and> unat c \<le> 0xDBFF)"

definition is_trail :: "16 word \<Rightarrow> bool" where
  "is_trail c = (0xDC00 \<le> unat c \<and> unat c \<le> 0xDFFF)"

definition lone :: "16 word \<Rightarrow> nat" where
  "lone c = (if is_lead c \<or> is_trail c then 0xFFFD else unat c)"

definition pair :: "16 word \<Rightarrow> 16 word \<Rightarrow> nat" where
  "pair c d = 0x10000 + (unat c - 0xD800) * 0x400 + (unat d - 0xDC00)"

fun scalar_values :: "js_string \<Rightarrow> nat list" where
  "scalar_values [] = []"
| "scalar_values [c] = [lone c]"
| "scalar_values (c # d # cs) =
     (if is_lead c \<and> is_trail d then pair c d # scalar_values cs
      else lone c # scalar_values (d # cs))"

definition byte :: "nat \<Rightarrow> 8 word" where
  "byte n = of_nat n"

definition utf8_bytes :: "nat \<Rightarrow> bytes" where
  "utf8_bytes cp =
     (if cp < 0x80 then [byte cp]
      else if cp < 0x800 then [byte (0xC0 + cp div 0x40), byte (0x80 + cp mod 0x40)]
      else if cp < 0x10000 then
        [byte (0xE0 + cp div 0x1000), byte (0x80 + cp div 0x40 mod 0x40),
         byte (0x80 + cp mod 0x40)]
      else
        [byte (0xF0 + cp div 0x40000), byte (0x80 + cp div 0x1000 mod 0x40),
         byte (0x80 + cp div 0x40 mod 0x40), byte (0x80 + cp mod 0x40)])"

definition utf8 :: "js_string \<Rightarrow> bytes" where
  "utf8 s = concat (map utf8_bytes (scalar_values s))"

text \<open>
  \<^verbatim>\<open>new TextEncoder().encode(s)\<close>: the Deno classes turn the string into bytes themselves
  before writing.
\<close>

definition TextEncoder_encode :: "js_string \<Rightarrow> bytes" where
  "TextEncoder_encode s = utf8 s"

section \<open>The host\<close>

text \<open>
  The host primitives are not part of the repository. Each call the facade makes into
  the host is a value of \<open>host_call\<close>, named after the primitive.
\<close>

datatype 'cb host_call =
    Deno_addSignalListener string 'cb
  | Deno_stdout_writeSync bytes
  | Deno_stderr_writeSync bytes
  | Deno_exit int
  | process_on string 'cb
  | process_stdout_write js_string
  | process_stderr_write js_string
  | process_exit int

text \<open>
  The host as the facade sees it. \<open>globalThis_Deno\<close> is the selection marker: by its
  declared type it is the Deno namespace object (truthy) or absent. \<open>Deno_args\<close> and
  \<open>process_argv\<close> are the two argument vectors. \<open>faults\<close> is what the operating system
  decides: the error, if any, with which a primitive call is refused (an unsupported
  signal, a closed stream, anything else). \<open>calls\<close> logs every primitive call made,
  refused or not; \<open>listeners\<close> is the signal registry, \<open>stdout_stream\<close> and
  \<open>stderr_stream\<close> hold the bytes that were written, one entry per write, and \<open>exit_status\<close> is
  set once the process has been terminated.
\<close>

record 'cb host =
  globalThis_Deno :: bool
  Deno_args :: "js_string list"
  process_argv :: "js_string list"
  faults :: "'cb host_call \<Rightarrow> js_error option"
  calls :: "'cb host_call list"
  listeners :: "(string \<times> 'cb) list"
  stdout_stream :: "bytes list"
  stderr_stream :: "bytes list"
  exit_status :: "int option"

text \<open>
  What an accepted call does, as the hosts document it. Both registration primitives
  append a listener (\<^verbatim>\<open>Deno.addSignalListener\<close>, and \<^verbatim>\<open>process.on\<close> of an event emitter)
  and never replace one; a write appends what it was given, whole, to its stream, one
  entry of bytes per write, and Node, given a string, encodes it as UTF-8 first (its
  default encoding); an exit ends the process with the code. A refused call does nothing
  but raise.
\<close>

fun effect :: "'cb host_call \<Rightarrow> 'cb host \<Rightarrow> 'cb host" where
  "effect (Deno_addSignalListener n cb) h = h\<lparr>listeners := listeners h @ [(n, cb)]\<rparr>"
| "effect (process_on n cb) h = h\<lparr>listeners := listeners h @ [(n, cb)]\<rparr>"
| "effect (Deno_stdout_writeSync b) h = h\<lparr>stdout_stream := stdout_stream h @ [b]\<rparr>"
| "effect (Deno_stderr_writeSync b) h = h\<lparr>stderr_stream := stderr_stream h @ [b]\<rparr>"
| "effect (process_stdout_write s) h = h\<lparr>stdout_stream := stdout_stream h @ [utf8 s]\<rparr>"
| "effect (process_stderr_write s) h = h\<lparr>stderr_stream := stderr_stream h @ [utf8 s]\<rparr>"
| "effect (Deno_exit code) h = h\<lparr>exit_status := Some code\<rparr>"
| "effect (process_exit code) h = h\<lparr>exit_status := Some code\<rparr>"

fun outcome :: "'cb host_call \<Rightarrow> unit completion" where
  "outcome (Deno_exit code) = Exited code"
| "outcome (process_exit code) = Exited code"
| "outcome _ = Returned ()"

text \<open>A primitive call: logged, then refused with the host's error or carried out.\<close>

definition invoke :: "'cb host_call \<Rightarrow> 'cb host \<Rightarrow> unit completion \<times> 'cb host" where
  "invoke c h =
     (let h1 = h\<lparr>calls := calls h @ [c]\<rparr>
      in case faults h c of
           Some e \<Rightarrow> (Threw e, h1)
         | None \<Rightarrow> (outcome c, effect c h1))"

text \<open>
  \<^verbatim>\<open>try { body } catch (_err) { }\<close>: a thrown error is dropped and the statement
  completes normally, in the state the body left. Nothing is rolled back.
\<close>

definition try_catch_ignore ::
  "('h \<Rightarrow> unit completion \<times> 'h) \<Rightarrow> 'h \<Rightarrow> unit completion \<times> 'h" where
  "try_catch_ignore body h =
     (case body h of
        (Threw err, h') \<Rightarrow> (Returned (), h')
      | (Returned u, h') \<Rightarrow> (Returned u, h')
      | (Exited code, h') \<Rightarrow> (Exited code, h'))"

section \<open>The capability interface\<close>

text \<open>
  \<^verbatim>\<open>interface Runtime\<close>: five operations, each a computation over the host. The type of
  signal names is the build's vocabulary. The handle is plain data: a caller may replace
  any of its operations.
\<close>

record ('n, 'cb) Runtime =
  args :: "'cb host \<Rightarrow> js_string list completion \<times> 'cb host"
  stdout :: "js_string \<Rightarrow> 'cb host \<Rightarrow> unit completion \<times> 'cb host"
  stderr :: "js_string \<Rightarrow> 'cb host \<Rightarrow> unit completion \<times> 'cb host"
  exit :: "int \<Rightarrow> 'cb host \<Rightarrow> unit completion \<times> 'cb host"
  signal :: "'n \<Rightarrow> 'cb \<Rightarrow> 'cb host \<Rightarrow> unit completion \<times> 'cb host"

section \<open>The full build\<close>

subsection \<open>\<^verbatim>\<open>class DenoRuntime\<close>\<close>

definition DenoRuntime_signal ::
  "signal_name \<Rightarrow> 'cb \<Rightarrow> 'cb host \<Rightarrow> unit completion \<times> 'cb host" where
  "DenoRuntime_signal name cb =
     try_catch_ignore (invoke (Deno_addSignalListener (signal_text name) cb))"

definition DenoRuntime_args :: "'cb host \<Rightarrow> js_string list completion \<times> 'cb host" where
  "DenoRuntime_args h = (Returned (Deno_args h), h)"

definition DenoRuntime_stderr :: "js_string \<Rightarrow> 'cb host \<Rightarrow> unit completion \<times> 'cb host" where
  "DenoRuntime_stderr s = invoke (Deno_stderr_writeSync (TextEncoder_encode s))"

definition DenoRuntime_stdout :: "js_string \<Rightarrow> 'cb host \<Rightarrow> unit completion \<times> 'cb host" where
  "DenoRuntime_stdout s = invoke (Deno_stdout_writeSync (TextEncoder_encode s))"

definition DenoRuntime_exit :: "int \<Rightarrow> 'cb host \<Rightarrow> unit completion \<times> 'cb host" where
  "DenoRuntime_exit code = invoke (Deno_exit code)"

definition DenoRuntime :: "(signal_name, 'cb) Runtime" where
  "DenoRuntime =
     \<lparr>args = DenoRuntime_args, stdout = DenoRuntime_stdout, stderr = DenoRuntime_stderr,
      exit = DenoRuntime_exit, signal = DenoRuntime_signal\<rparr>"

subsection \<open>\<^verbatim>\<open>class NodeRuntime\<close>\<close>

definition NodeRuntime_signal ::
  "signal_name \<Rightarrow> 'cb \<Rightarrow> 'cb host \<Rightarrow> unit completion \<times> 'cb host" where
  "NodeRuntime_signal name cb =
     try_catch_ignore (invoke (process_on (signal_text name) cb))"

text \<open>\<^verbatim>\<open>process.argv.slice(2)\<close>: the elements from index 2 on, none when there are fewer.\<close>

definition NodeRuntime_args :: "'cb host \<Rightarrow> js_string list completion \<times> 'cb host" where
  "NodeRuntime_args h = (Returned (drop 2 (process_argv h)), h)"

definition NodeRuntime_stderr :: "js_string \<Rightarrow> 'cb host \<Rightarrow> unit completion \<times> 'cb host" where
  "NodeRuntime_stderr s = invoke (process_stderr_write s)"

definition NodeRuntime_stdout :: "js_string \<Rightarrow> 'cb host \<Rightarrow> unit completion \<times> 'cb host" where
  "NodeRuntime_stdout s = invoke (process_stdout_write s)"

definition NodeRuntime_exit :: "int \<Rightarrow> 'cb host \<Rightarrow> unit completion \<times> 'cb host" where
  "NodeRuntime_exit code = invoke (process_exit code)"

definition NodeRuntime :: "(signal_name, 'cb) Runtime" where
  "NodeRuntime =
     \<lparr>args = NodeRuntime_args, stdout = NodeRuntime_stdout, stderr = NodeRuntime_stderr,
      exit = NodeRuntime_exit, signal = NodeRuntime_signal\<rparr>"

subsection \<open>\<^verbatim>\<open>getRuntime\<close>\<close>

text \<open>
  The promise of \<^verbatim>\<open>getRuntime\<close> resolves to the handle; the two imports load modules of
  this repository, whose top level only defines a function and a class.
\<close>

definition getRuntime :: "'cb host \<Rightarrow> (signal_name, 'cb) Runtime completion \<times> 'cb host" where
  "getRuntime h = (if globalThis_Deno h then (Returned DenoRuntime, h) else (Returned NodeRuntime, h))"

section \<open>The restricted build\<close>

subsection \<open>\<^verbatim>\<open>class DenoRuntime\<close>, restricted\<close>

definition DenoRuntime_restricted_signal ::
  "restricted_signal_name \<Rightarrow> 'cb \<Rightarrow> 'cb host \<Rightarrow> unit completion \<times> 'cb host" where
  "DenoRuntime_restricted_signal name cb =
     invoke (Deno_addSignalListener (restricted_signal_text name) cb)"

definition DenoRuntime_restricted_args ::
  "'cb host \<Rightarrow> js_string list completion \<times> 'cb host" where
  "DenoRuntime_restricted_args h = (Returned (Deno_args h), h)"

definition DenoRuntime_restricted_stderr ::
  "js_string \<Rightarrow> 'cb host \<Rightarrow> unit completion \<times> 'cb host" where
  "DenoRuntime_restricted_stderr s = invoke (Deno_stderr_writeSync (TextEncoder_encode s))"

definition DenoRuntime_restricted_stdout ::
  "js_string \<Rightarrow> 'cb host \<Rightarrow> unit completion \<times> 'cb host" where
  "DenoRuntime_restricted_stdout s = invoke (Deno_stdout_writeSync (TextEncoder_encode s))"

definition DenoRuntime_restricted_exit ::
  "int \<Rightarrow> 'cb host \<Rightarrow> unit completion \<times> 'cb host" where
  "DenoRuntime_restricted_exit code = invoke (Deno_exit code)"

definition DenoRuntime_restricted :: "(restricted_signal_name, 'cb) Runtime" where
  "DenoRuntime_restricted =
     \<lparr>args = DenoRuntime_restricted_args, stdout = DenoRuntime_restricted_stdout,
      stderr = DenoRuntime_restricted_stderr, exit = DenoRuntime_restricted_exit,
      signal = DenoRuntime_restricted_signal\<rparr>"

subsection \<open>\<^verbatim>\<open>class NodeRuntime\<close>, restricted\<close>

definition NodeRuntime_restricted_signal ::
  "restricted_signal_name \<Rightarrow> 'cb \<Rightarrow> 'cb host \<Rightarrow> unit completion \<times> 'cb host" where
  "NodeRuntime_restricted_signal name cb =
     invoke (process_on (restricted_signal_text name) cb)"

definition NodeRuntime_restricted_args ::
  "'cb host \<Rightarrow> js_string list completion \<times> 'cb host" where
  "NodeRuntime_restricted_args h = (Returned (drop 2 (process_argv h)), h)"

definition NodeRuntime_restricted_stderr ::
  "js_string \<Rightarrow> 'cb host \<Rightarrow> unit completion \<times> 'cb host" where
  "NodeRuntime_restricted_stderr s = invoke (process_stderr_write s)"

definition NodeRuntime_restricted_stdout ::
  "js_string \<Rightarrow> 'cb host \<Rightarrow> unit completion \<times> 'cb host" where
  "NodeRuntime_restricted_stdout s = invoke (process_stdout_write s)"

definition NodeRuntime_restricted_exit ::
  "int \<Rightarrow> 'cb host \<Rightarrow> unit completion \<times> 'cb host" where
  "NodeRuntime_restricted_exit code = invoke (process_exit code)"

definition NodeRuntime_restricted :: "(restricted_signal_name, 'cb) Runtime" where
  "NodeRuntime_restricted =
     \<lparr>args = NodeRuntime_restricted_args, stdout = NodeRuntime_restricted_stdout,
      stderr = NodeRuntime_restricted_stderr, exit = NodeRuntime_restricted_exit,
      signal = NodeRuntime_restricted_signal\<rparr>"

subsection \<open>\<^verbatim>\<open>getRuntime\<close>, restricted\<close>

definition getRuntime_restricted ::
  "'cb host \<Rightarrow> (restricted_signal_name, 'cb) Runtime completion \<times> 'cb host" where
  "getRuntime_restricted h =
     (if globalThis_Deno h then (Returned DenoRuntime_restricted, h)
      else (Returned NodeRuntime_restricted, h))"

section \<open>Reading the host's record\<close>

text \<open>
  The calls made between two states of the host: what was added to the log.
\<close>

definition performed :: "'cb host \<Rightarrow> 'cb host \<Rightarrow> 'cb host_call list" where
  "performed h h' = drop (length (calls h)) (calls h')"

text \<open>
  The text that a sequence of bytes spells, to say what a written entry contains. The
  reader is strict: it takes UTF-8 only, in its shortest form, and never a surrogate or a
  value beyond U+10FFFF; anything else spells nothing (\<open>None\<close>). Each code point read is
  written back as its UTF-16 code units.
\<close>

definition continuation :: "8 word \<Rightarrow> nat option" where
  "continuation b = (if 0x80 \<le> unat b \<and> unat b < 0xC0 then Some (unat b - 0x80) else None)"

definition is_scalar :: "nat \<Rightarrow> bool" where
  "is_scalar cp = (cp \<le> 0x10FFFF \<and> \<not> (0xD800 \<le> cp \<and> cp \<le> 0xDFFF))"

definition admit :: "nat \<Rightarrow> nat \<Rightarrow> nat list option \<Rightarrow> nat list option" where
  "admit least cp rest = (if least \<le> cp \<and> is_scalar cp then map_option ((#) cp) rest else None)"

fun utf8_decode :: "bytes \<Rightarrow> nat list option" where
  "utf8_decode [] = Some []"
| "utf8_decode (b # bs) =
     (if unat b < 0x80 then map_option ((#) (unat b)) (utf8_decode bs)
      else if unat b < 0xC0 then None
      else if unat b < 0xE0 then
        (case bs of
           b1 # r \<Rightarrow>
             (case continuation b1 of
                Some x1 \<Rightarrow> admit 0x80 ((unat b - 0xC0) * 0x40 + x1) (utf8_decode r)
              | None \<Rightarrow> None)
         | _ \<Rightarrow> None)
      else if unat b < 0xF0 then
        (case bs of
           b1 # b2 # r \<Rightarrow>
             (case (continuation b1, continuation b2) of
                (Some x1, Some x2) \<Rightarrow>
                  admit 0x800 ((unat b - 0xE0) * 0x1000 + x1 * 0x40 + x2) (utf8_decode r)
              | _ \<Rightarrow> None)
         | _ \<Rightarrow> None)
      else if unat b < 0xF8 then
        (case bs of
           b1 # b2 # b3 # r \<Rightarrow>
             (case (continuation b1, continuation b2, continuation b3) of
                (Some x1, Some x2, Some x3) \<Rightarrow>
                  admit 0x10000 ((unat b - 0xF0) * 0x40000 + x1 * 0x1000 + x2 * 0x40 + x3)
                    (utf8_decode r)
              | _ \<Rightarrow> None)
         | _ \<Rightarrow> None)
      else None)"

definition code_unit :: "nat \<Rightarrow> 16 word" where
  "code_unit n = of_nat n"

definition utf16_units :: "nat \<Rightarrow> js_string" where
  "utf16_units cp =
     (if cp < 0x10000 then [code_unit cp]
      else [code_unit (0xD800 + (cp - 0x10000) div 0x400),
            code_unit (0xDC00 + (cp - 0x10000) mod 0x400)])"

definition utf8_text :: "bytes \<Rightarrow> js_string option" where
  "utf8_text b = map_option (\<lambda>cps. concat (map utf16_units cps)) (utf8_decode b)"

text \<open>
  What a string becomes when every surrogate code unit outside a pair is replaced by
  U+FFFD, and when a string has none to replace.
\<close>

definition replacement :: "16 word \<Rightarrow> 16 word" where
  "replacement c = (if is_lead c \<or> is_trail c then 0xFFFD else c)"

fun replace_unpaired :: "js_string \<Rightarrow> js_string" where
  "replace_unpaired [] = []"
| "replace_unpaired [c] = [replacement c]"
| "replace_unpaired (c # d # cs) =
     (if is_lead c \<and> is_trail d then c # d # replace_unpaired cs
      else replacement c # replace_unpaired (d # cs))"

fun well_formed :: "js_string \<Rightarrow> bool" where
  "well_formed [] = True"
| "well_formed [c] = (\<not> is_lead c \<and> \<not> is_trail c)"
| "well_formed (c # d # cs) =
     (if is_lead c then is_trail d \<and> well_formed cs
      else \<not> is_trail c \<and> well_formed (d # cs))"

section \<open>Launches and hosts to run the facade on\<close>

text \<open>
  How a program was launched: the executable, the script file if there is one (there is
  none under \<^verbatim>\<open>node -e\<close>), and the arguments the user supplied. Node puts all of them
  into \<^verbatim>\<open>process.argv\<close>, in this order; Deno gives the user's arguments alone.
\<close>

record launch =
  execPath :: js_string
  scriptPath :: "js_string option"
  userArgs :: "js_string list"

definition node_argv :: "launch \<Rightarrow> js_string list" where
  "node_argv l =
     execPath l # (case scriptPath l of Some path \<Rightarrow> [path] | None \<Rightarrow> []) @ userArgs l"

definition launched ::
  "bool \<Rightarrow> launch \<Rightarrow> ('cb host_call \<Rightarrow> js_error option) \<Rightarrow> 'cb host" where
  "launched deno l f =
     \<lparr>globalThis_Deno = deno, Deno_args = userArgs l, process_argv = node_argv l,
      faults = f, calls = [], listeners = [], stdout_stream = [], stderr_stream = [],
      exit_status = None\<rparr>"

text \<open>
  A process that has just started: the user's arguments as Deno gives them, and behind the
  executable and the script as Node gives them; nothing written, nothing registered.
\<close>

definition started ::
  "bool \<Rightarrow> js_string \<Rightarrow> js_string \<Rightarrow> js_string list \<Rightarrow>
   ('cb host_call \<Rightarrow> js_error option) \<Rightarrow> 'cb host" where
  "started deno executable script user f =
     \<lparr>globalThis_Deno = deno, Deno_args = user, process_argv = executable # script # user,
      faults = f, calls = [], listeners = [], stdout_stream = [], stderr_stream = [],
      exit_status = None\<rparr>"

text \<open>
  An operating system without SIGINFO, where \<^verbatim>\<open>Deno.addSignalListener\<close> raises a TypeError for
  that name; one that refuses every call with a given error; one that refuses none.
\<close>

definition refuse_SIGINFO :: "'cb host_call \<Rightarrow> js_error option" where
  "refuse_SIGINFO c =
     (case c of
        Deno_addSignalListener n cb \<Rightarrow>
          if n = ''SIGINFO'' then Some (TypeError ''Invalid signal: SIGINFO'') else None
      | _ \<Rightarrow> None)"

definition refuse_all :: "js_error \<Rightarrow> 'cb host_call \<Rightarrow> js_error option" where
  "refuse_all e c = Some e"

definition refuse_none :: "'cb host_call \<Rightarrow> js_error option" where
  "refuse_none c = None"

text \<open>
  The string of the repository's Unicode test: \<^verbatim>\<open>Hello\<close>, a space, U+4E16, U+754C, a space,
  U+1F30D (a surrogate pair) and a line feed.
\<close>

definition hello :: js_string where
  "hello = [0x48, 0x65, 0x6C, 0x6C, 0x6F, 0x20, 0x4E16, 0x754C, 0x20, 0xD83C, 0xDF0D, 0x0A]"

section \<open>Bytes and text\<close>

lemma unat_byte: "n < 256 \<Longrightarrow> unat (byte n) = n"
  by (simp add: byte_def unat_of_nat)

lemma byte_unat: "byte (unat b) = b"
  by (simp add: byte_def)

lemma code_unit_unat: "code_unit (unat c) = c"
  by (simp add: code_unit_def)

lemma unat_code_unit: "n < 65536 \<Longrightarrow> unat (code_unit n) = n"
  by (simp add: code_unit_def unat_of_nat)

lemma unat_unit_bound: "unat (c :: 16 word) < 65536"
  using unsigned_less [of c, where 'a = nat] by simp

lemma continuation_byte: "x < 0x40 \<Longrightarrow> continuation (byte (0x80 + x)) = Some x"
  by (simp add: continuation_def unat_byte)

lemma continuation_Some:
  assumes "continuation b = Some x"
  shows "x < 0x40" and "byte (0x80 + x) = b"
proof -
  from assms have r: "0x80 \<le> unat b" "unat b < 0xC0" and x: "x = unat b - 0x80"
    by (simp_all add: continuation_def split: if_splits)
  from r x show "x < 0x40" by arith
  from r x have "0x80 + x = unat b" by arith
  then show "byte (0x80 + x) = b" by (simp only: byte_unat)
qed

lemma div_twice: "(n::nat) div 0x40 div 0x40 = n div 0x1000"
  using div_mult2_eq [of n "0x40" "0x40"] by simp

lemma div_thrice: "(n::nat) div 0x1000 div 0x40 = n div 0x40000"
  using div_mult2_eq [of n "0x1000" "0x40"] by simp

lemma whole3: "cp div 0x1000 * 0x1000 + cp div 0x40 mod 0x40 * 0x40 + cp mod 0x40 = (cp::nat)"
proof -
  have "cp div 0x40 = cp div 0x1000 * 0x40 + cp div 0x40 mod 0x40"
    using div_mult_mod_eq [of "cp div 0x40" "0x40"] by (simp only: div_twice)
  then have "cp div 0x40 * 0x40 = (cp div 0x1000 * 0x40 + cp div 0x40 mod 0x40) * 0x40"
    by (rule arg_cong)
  also have "\<dots> = cp div 0x1000 * 0x1000 + cp div 0x40 mod 0x40 * 0x40"
    by (simp add: add_mult_distrib)
  finally show ?thesis
    using div_mult_mod_eq [of cp "0x40"] by simp
qed

lemma whole4: "cp div 0x40000 * 0x40000 + cp div 0x1000 mod 0x40 * 0x1000
      + cp div 0x40 mod 0x40 * 0x40 + cp mod 0x40 = (cp::nat)"
proof -
  have "cp div 0x1000 = cp div 0x40000 * 0x40 + cp div 0x1000 mod 0x40"
    using div_mult_mod_eq [of "cp div 0x1000" "0x40"] by (simp only: div_thrice)
  then have "cp div 0x1000 * 0x1000 = (cp div 0x40000 * 0x40 + cp div 0x1000 mod 0x40) * 0x1000"
    by (rule arg_cong)
  also have "\<dots> = cp div 0x40000 * 0x40000 + cp div 0x1000 mod 0x40 * 0x1000"
    by (simp add: add_mult_distrib)
  finally show ?thesis
    using whole3 [of cp] by simp
qed

lemma decode_1:
  "cp < 0x80 \<Longrightarrow> utf8_decode (utf8_bytes cp @ bs) = map_option ((#) cp) (utf8_decode bs)"
  by (simp add: utf8_bytes_def unat_byte)

lemma decode_two:
  "q < 0x20 \<Longrightarrow> r < 0x40 \<Longrightarrow>
   utf8_decode (byte (0xC0 + q) # byte (0x80 + r) # bs) =
     admit 0x80 (q * 0x40 + r) (utf8_decode bs)"
  by (simp add: unat_byte continuation_byte)

lemma decode_three:
  "q < 0x10 \<Longrightarrow> r < 0x40 \<Longrightarrow> t < 0x40 \<Longrightarrow>
   utf8_decode (byte (0xE0 + q) # byte (0x80 + r) # byte (0x80 + t) # bs) =
     admit 0x800 (q * 0x1000 + r * 0x40 + t) (utf8_decode bs)"
  by (simp add: unat_byte continuation_byte)

lemma decode_four:
  "q < 0x8 \<Longrightarrow> r < 0x40 \<Longrightarrow> t < 0x40 \<Longrightarrow> u < 0x40 \<Longrightarrow>
   utf8_decode (byte (0xF0 + q) # byte (0x80 + r) # byte (0x80 + t) # byte (0x80 + u) # bs) =
     admit 0x10000 (q * 0x40000 + r * 0x1000 + t * 0x40 + u) (utf8_decode bs)"
  by (simp add: unat_byte continuation_byte)

lemma decode_2:
  assumes "0x80 \<le> cp" "cp < 0x800"
  shows "utf8_decode (utf8_bytes cp @ bs) = map_option ((#) cp) (utf8_decode bs)"
proof -
  have q: "cp div 0x40 < 0x20" using assms by simp
  have whole: "cp div 0x40 * 0x40 + cp mod 0x40 = cp" by simp
  have ok: "admit 0x80 cp rest = map_option ((#) cp) rest" for rest
    using assms by (simp add: admit_def is_scalar_def)
  have "utf8_bytes cp = [byte (0xC0 + cp div 0x40), byte (0x80 + cp mod 0x40)]"
    using assms by (simp add: utf8_bytes_def)
  then show ?thesis
    using decode_two [OF q, of "cp mod 0x40" bs] by (simp add: whole ok)
qed

lemma decode_3:
  assumes "0x800 \<le> cp" "cp < 0x10000" "is_scalar cp"
  shows "utf8_decode (utf8_bytes cp @ bs) = map_option ((#) cp) (utf8_decode bs)"
proof -
  have q: "cp div 0x1000 < 0x10" using assms by simp
  note whole = whole3 [of cp]
  have ok: "admit 0x800 cp rest = map_option ((#) cp) rest" for rest
    using assms by (simp add: admit_def)
  have "utf8_bytes cp =
      [byte (0xE0 + cp div 0x1000), byte (0x80 + cp div 0x40 mod 0x40), byte (0x80 + cp mod 0x40)]"
    using assms by (simp add: utf8_bytes_def)
  then show ?thesis
    using decode_three [OF q, of "cp div 0x40 mod 0x40" "cp mod 0x40" bs] by (simp add: whole ok)
qed

lemma decode_4:
  assumes "0x10000 \<le> cp" "is_scalar cp"
  shows "utf8_decode (utf8_bytes cp @ bs) = map_option ((#) cp) (utf8_decode bs)"
proof -
  have "cp < 0x110000" using assms by (simp add: is_scalar_def)
  then have q: "cp div 0x40000 < 0x8" by simp
  note whole = whole4 [of cp]
  have ok: "admit 0x10000 cp rest = map_option ((#) cp) rest" for rest
    using assms by (simp add: admit_def)
  have "utf8_bytes cp =
      [byte (0xF0 + cp div 0x40000), byte (0x80 + cp div 0x1000 mod 0x40),
       byte (0x80 + cp div 0x40 mod 0x40), byte (0x80 + cp mod 0x40)]"
    using assms by (simp add: utf8_bytes_def)
  then show ?thesis
    using decode_four [OF q, of "cp div 0x1000 mod 0x40" "cp div 0x40 mod 0x40" "cp mod 0x40" bs]
    by (simp add: whole ok)
qed

lemma decode_scalar:
  "is_scalar cp \<Longrightarrow> utf8_decode (utf8_bytes cp @ bs) = map_option ((#) cp) (utf8_decode bs)"
  using decode_1 [of cp bs] decode_2 [of cp bs] decode_3 [of cp bs] decode_4 [of cp bs]
  by linarith

lemma decode_scalars:
  "\<forall>cp \<in> set cps. is_scalar cp \<Longrightarrow> utf8_decode (concat (map utf8_bytes cps)) = Some cps"
  by (induction cps) (simp_all add: decode_scalar)

lemma surrogate_range: "is_lead c \<or> is_trail c \<longleftrightarrow> 0xD800 \<le> unat c \<and> unat c \<le> 0xDFFF"
  unfolding is_lead_def is_trail_def by arith

lemma lone_scalar: "is_scalar (lone c)"
proof (cases "is_lead c \<or> is_trail c")
  case True
  then show ?thesis by (simp add: lone_def is_scalar_def)
next
  case False
  then have "lone c = unat c" by (simp add: lone_def)
  moreover from False have "\<not> (0xD800 \<le> unat c \<and> unat c \<le> 0xDFFF)"
    using surrogate_range [of c] by blast
  ultimately show ?thesis
    using unat_unit_bound [of c] by (simp add: is_scalar_def)
qed

lemma pair_split:
  assumes "is_lead c" "is_trail d"
  obtains a b where "a < 0x400" "b < 0x400" "unat c = 0xD800 + a" "unat d = 0xDC00 + b"
    "pair c d = 0x10000 + a * 0x400 + b"
proof
  show "unat c - 0xD800 < 0x400" "unat d - 0xDC00 < 0x400"
    using assms unfolding is_lead_def is_trail_def by arith+
  show "unat c = 0xD800 + (unat c - 0xD800)" "unat d = 0xDC00 + (unat d - 0xDC00)"
    using assms unfolding is_lead_def is_trail_def by arith+
  show "pair c d = 0x10000 + (unat c - 0xD800) * 0x400 + (unat d - 0xDC00)"
    by (simp add: pair_def)
qed

lemma pair_scalar:
  assumes "is_lead c" "is_trail d"
  shows "is_scalar (pair c d)"
proof -
  from assms obtain a b where "a < 0x400" "b < 0x400" "pair c d = 0x10000 + a * 0x400 + b"
    by (rule pair_split)
  then show ?thesis by (simp add: is_scalar_def)
qed

lemma scalar_values_scalar: "\<forall>cp \<in> set (scalar_values s). is_scalar cp"
  by (induction s rule: scalar_values.induct) (simp_all add: lone_scalar pair_scalar)

lemma units_lone: "utf16_units (lone c) = [replacement c]"
  using unat_unit_bound [of c]
  by (simp add: lone_def replacement_def utf16_units_def code_unit_unat code_unit_def)

lemma units_pair:
  assumes "is_lead c" "is_trail d"
  shows "utf16_units (pair c d) = [c, d]"
proof -
  from assms obtain a b where ab: "a < 0x400" "b < 0x400"
    and c: "unat c = 0xD800 + a" and d: "unat d = 0xDC00 + b"
    and p: "pair c d = 0x10000 + a * 0x400 + b"
    by (rule pair_split)
  have "utf16_units (pair c d) = [code_unit (0xD800 + a), code_unit (0xDC00 + b)]"
    using ab by (simp add: utf16_units_def p)
  also have "\<dots> = [code_unit (unat c), code_unit (unat d)]"
    by (simp only: c d)
  finally show ?thesis by (simp only: code_unit_unat)
qed

lemma units_scalar_values: "concat (map utf16_units (scalar_values s)) = replace_unpaired s"
  by (induction s rule: scalar_values.induct) (simp_all add: units_lone units_pair)

lemma utf8_text_utf8: "utf8_text (utf8 s) = Some (replace_unpaired s)"
  by (simp add: utf8_text_def utf8_def decode_scalars scalar_values_scalar units_scalar_values)

lemma lead_not_trail: "is_lead c \<Longrightarrow> \<not> is_trail c"
  by (simp add: is_lead_def is_trail_def)

lemma replacement_fixed: "replacement c = c \<longleftrightarrow> \<not> is_lead c \<and> \<not> is_trail c"
  by (auto simp add: replacement_def is_lead_def is_trail_def)

lemma replace_unpaired_fixed: "replace_unpaired s = s \<longleftrightarrow> well_formed s"
  by (induction s rule: replace_unpaired.induct)
     (auto simp add: replacement_fixed lead_not_trail)

lemma digits2:
  assumes "x1 < (0x40::nat)"
  shows "(q * 0x40 + x1) div 0x40 = q" "(q * 0x40 + x1) mod 0x40 = x1"
  using assms by simp_all

lemma digits3:
  assumes "x1 < (0x40::nat)" "x2 < (0x40::nat)"
  shows "(q * 0x1000 + x1 * 0x40 + x2) div 0x1000 = q"
    "(q * 0x1000 + x1 * 0x40 + x2) div 0x40 mod 0x40 = x1"
    "(q * 0x1000 + x1 * 0x40 + x2) mod 0x40 = x2"
proof -
  have e: "q * 0x1000 + x1 * 0x40 + x2 = (q * 0x40 + x1) * 0x40 + x2"
    by (simp add: add_mult_distrib)
  have d: "(q * 0x1000 + x1 * 0x40 + x2) div 0x40 = q * 0x40 + x1"
    unfolding e by (rule digits2(1) [OF assms(2)])
  show "(q * 0x1000 + x1 * 0x40 + x2) div 0x40 mod 0x40 = x1"
    unfolding d by (rule digits2(2) [OF assms(1)])
  show "(q * 0x1000 + x1 * 0x40 + x2) mod 0x40 = x2"
    unfolding e by (rule digits2(2) [OF assms(2)])
  show "(q * 0x1000 + x1 * 0x40 + x2) div 0x1000 = q"
    unfolding div_twice [symmetric] d by (rule digits2(1) [OF assms(1)])
qed

lemma digits4:
  assumes "x1 < (0x40::nat)" "x2 < (0x40::nat)" "x3 < (0x40::nat)"
  shows "(q * 0x40000 + x1 * 0x1000 + x2 * 0x40 + x3) div 0x40000 = q"
    "(q * 0x40000 + x1 * 0x1000 + x2 * 0x40 + x3) div 0x1000 mod 0x40 = x1"
    "(q * 0x40000 + x1 * 0x1000 + x2 * 0x40 + x3) div 0x40 mod 0x40 = x2"
    "(q * 0x40000 + x1 * 0x1000 + x2 * 0x40 + x3) mod 0x40 = x3"
proof -
  have e: "q * 0x40000 + x1 * 0x1000 + x2 * 0x40 + x3 = (q * 0x40 + x1) * 0x1000 + x2 * 0x40 + x3"
    by (simp add: add_mult_distrib)
  note low = digits3 [OF assms(2,3), of "q * 0x40 + x1"]
  show "(q * 0x40000 + x1 * 0x1000 + x2 * 0x40 + x3) div 0x40 mod 0x40 = x2"
    unfolding e by (rule low(2))
  show "(q * 0x40000 + x1 * 0x1000 + x2 * 0x40 + x3) mod 0x40 = x3"
    unfolding e by (rule low(3))
  have d: "(q * 0x40000 + x1 * 0x1000 + x2 * 0x40 + x3) div 0x1000 = q * 0x40 + x1"
    unfolding e by (rule low(1))
  show "(q * 0x40000 + x1 * 0x1000 + x2 * 0x40 + x3) div 0x1000 mod 0x40 = x1"
    unfolding d by (rule digits2(2) [OF assms(1)])
  show "(q * 0x40000 + x1 * 0x1000 + x2 * 0x40 + x3) div 0x40000 = q"
    unfolding div_thrice [symmetric] d by (rule digits2(1) [OF assms(1)])
qed

lemma encode_two:
  assumes "0xC0 \<le> unat b" "unat b < 0xE0" "continuation b1 = Some x1"
    and "0x80 \<le> (unat b - 0xC0) * 0x40 + x1"
  shows "utf8_bytes ((unat b - 0xC0) * 0x40 + x1) = [b, b1]"
proof -
  let ?q = "unat b - 0xC0" and ?cp = "(unat b - 0xC0) * 0x40 + x1"
  note x = continuation_Some [OF assms(3)]
  have q: "?q < 0x20" "0xC0 + ?q = unat b" using assms(1,2) by arith+
  have hi: "?cp < 0x800" using q(1) x(1) by arith
  have "utf8_bytes ?cp = [byte (0xC0 + ?cp div 0x40), byte (0x80 + ?cp mod 0x40)]"
    using assms(4) hi by (simp add: utf8_bytes_def)
  also have "\<dots> = [byte (0xC0 + ?q), byte (0x80 + x1)]"
    by (simp only: digits2 [OF x(1)])
  also have "\<dots> = [b, b1]"
    by (simp only: q(2) byte_unat x(2))
  finally show ?thesis .
qed

lemma encode_three:
  assumes "0xE0 \<le> unat b" "unat b < 0xF0"
    and "continuation b1 = Some x1" "continuation b2 = Some x2"
    and "0x800 \<le> (unat b - 0xE0) * 0x1000 + x1 * 0x40 + x2"
  shows "utf8_bytes ((unat b - 0xE0) * 0x1000 + x1 * 0x40 + x2) = [b, b1, b2]"
proof -
  let ?q = "unat b - 0xE0" and ?cp = "(unat b - 0xE0) * 0x1000 + x1 * 0x40 + x2"
  note x1 = continuation_Some [OF assms(3)] and x2 = continuation_Some [OF assms(4)]
  have q: "?q < 0x10" "0xE0 + ?q = unat b" using assms(1,2) by arith+
  have hi: "?cp < 0x10000" using q(1) x1(1) x2(1) by arith
  have "utf8_bytes ?cp =
      [byte (0xE0 + ?cp div 0x1000), byte (0x80 + ?cp div 0x40 mod 0x40),
       byte (0x80 + ?cp mod 0x40)]"
    using assms(5) hi by (simp add: utf8_bytes_def)
  also have "\<dots> = [byte (0xE0 + ?q), byte (0x80 + x1), byte (0x80 + x2)]"
    by (simp only: digits3 [OF x1(1) x2(1)])
  also have "\<dots> = [b, b1, b2]"
    by (simp only: q(2) byte_unat x1(2) x2(2))
  finally show ?thesis .
qed

lemma encode_four:
  assumes "0xF0 \<le> unat b"
    and "continuation b1 = Some x1" "continuation b2 = Some x2" "continuation b3 = Some x3"
    and "0x10000 \<le> (unat b - 0xF0) * 0x40000 + x1 * 0x1000 + x2 * 0x40 + x3"
  shows "utf8_bytes ((unat b - 0xF0) * 0x40000 + x1 * 0x1000 + x2 * 0x40 + x3) = [b, b1, b2, b3]"
proof -
  let ?q = "unat b - 0xF0"
  let ?cp = "(unat b - 0xF0) * 0x40000 + x1 * 0x1000 + x2 * 0x40 + x3"
  note x1 = continuation_Some [OF assms(2)] and x2 = continuation_Some [OF assms(3)]
    and x3 = continuation_Some [OF assms(4)]
  have q: "0xF0 + ?q = unat b" using assms(1) by arith
  have "utf8_bytes ?cp =
      [byte (0xF0 + ?cp div 0x40000), byte (0x80 + ?cp div 0x1000 mod 0x40),
       byte (0x80 + ?cp div 0x40 mod 0x40), byte (0x80 + ?cp mod 0x40)]"
    using assms(5) by (simp add: utf8_bytes_def)
  also have "\<dots> = [byte (0xF0 + ?q), byte (0x80 + x1), byte (0x80 + x2), byte (0x80 + x3)]"
    by (simp only: digits4 [OF x1(1) x2(1) x3(1)])
  also have "\<dots> = [b, b1, b2, b3]"
    by (simp only: q byte_unat x1(2) x2(2) x3(2))
  finally show ?thesis .
qed

lemma admit_Some:
  "admit least cp rest = Some cps \<longleftrightarrow>
     least \<le> cp \<and> is_scalar cp \<and> (\<exists>tl. rest = Some tl \<and> cps = cp # tl)"
  by (auto simp add: admit_def)

lemma utf8_decode_canonical:
  "utf8_decode b = Some cps \<Longrightarrow>
     concat (map utf8_bytes cps) = b \<and> (\<forall>cp \<in> set cps. is_scalar cp)"
proof (induction b arbitrary: cps rule: length_induct)
  case (1 b)
  show ?case
  proof (cases b)
    case Nil
    with "1.prems" show ?thesis by simp
  next
    case (Cons x bs)
    note ih = "1.IH" [rule_format]
    consider (one) "unat x < 0x80"
      | (stray) "0x80 \<le> unat x" "unat x < 0xC0"
      | (two) "0xC0 \<le> unat x" "unat x < 0xE0"
      | (three) "0xE0 \<le> unat x" "unat x < 0xF0"
      | (four) "0xF0 \<le> unat x" "unat x < 0xF8"
      | (high) "0xF8 \<le> unat x"
      by linarith
    then show ?thesis
    proof cases
      case one
      with "1.prems" Cons obtain tl where tl: "utf8_decode bs = Some tl" "cps = unat x # tl"
        by auto
      have "concat (map utf8_bytes tl) = bs \<and> (\<forall>cp \<in> set tl. is_scalar cp)"
        using ih [of bs tl] tl(1) Cons by simp
      moreover have "utf8_bytes (unat x) = [x]"
        using one by (simp add: utf8_bytes_def byte_unat)
      moreover have "is_scalar (unat x)"
        using one by (simp add: is_scalar_def)
      ultimately show ?thesis using tl(2) Cons by simp
    next
      case stray
      with "1.prems" Cons show ?thesis by simp
    next
      case two
      with "1.prems" Cons obtain b1 r x1 tl where
        bs: "bs = b1 # r" and c: "continuation b1 = Some x1"
        and ok: "0x80 \<le> (unat x - 0xC0) * 0x40 + x1"
        and sc: "is_scalar ((unat x - 0xC0) * 0x40 + x1)"
        and tl: "utf8_decode r = Some tl" "cps = ((unat x - 0xC0) * 0x40 + x1) # tl"
        by (auto simp add: admit_Some split: list.splits option.splits)
      have "concat (map utf8_bytes tl) = r \<and> (\<forall>cp \<in> set tl. is_scalar cp)"
        using ih [of r tl] tl(1) Cons bs by simp
      then show ?thesis
        using encode_two [OF two c ok] sc tl(2) Cons bs by simp
    next
      case three
      with "1.prems" Cons obtain b1 b2 r x1 x2 tl where
        bs: "bs = b1 # b2 # r" and c: "continuation b1 = Some x1" "continuation b2 = Some x2"
        and ok: "0x800 \<le> (unat x - 0xE0) * 0x1000 + x1 * 0x40 + x2"
        and sc: "is_scalar ((unat x - 0xE0) * 0x1000 + x1 * 0x40 + x2)"
        and tl: "utf8_decode r = Some tl"
          "cps = ((unat x - 0xE0) * 0x1000 + x1 * 0x40 + x2) # tl"
        by (auto simp add: admit_Some split: list.splits option.splits)
      have "concat (map utf8_bytes tl) = r \<and> (\<forall>cp \<in> set tl. is_scalar cp)"
        using ih [of r tl] tl(1) Cons bs by simp
      then show ?thesis
        using encode_three [OF three c ok] sc tl(2) Cons bs by simp
    next
      case four
      with "1.prems" Cons obtain b1 b2 b3 r x1 x2 x3 tl where
        bs: "bs = b1 # b2 # b3 # r"
        and c: "continuation b1 = Some x1" "continuation b2 = Some x2" "continuation b3 = Some x3"
        and ok: "0x10000 \<le> (unat x - 0xF0) * 0x40000 + x1 * 0x1000 + x2 * 0x40 + x3"
        and sc: "is_scalar ((unat x - 0xF0) * 0x40000 + x1 * 0x1000 + x2 * 0x40 + x3)"
        and tl: "utf8_decode r = Some tl"
          "cps = ((unat x - 0xF0) * 0x40000 + x1 * 0x1000 + x2 * 0x40 + x3) # tl"
        by (auto simp add: admit_Some split: list.splits option.splits)
      have "concat (map utf8_bytes tl) = r \<and> (\<forall>cp \<in> set tl. is_scalar cp)"
        using ih [of r tl] tl(1) Cons bs by simp
      then show ?thesis
        using encode_four [OF four(1) c ok] sc tl(2) Cons bs by simp
    next
      case high
      with "1.prems" Cons show ?thesis by simp
    qed
  qed
qed


lemma scalar_values_not_lead:
  "\<not> is_lead c \<Longrightarrow> scalar_values (c # rest) = lone c # scalar_values rest"
  by (cases rest) simp_all

lemma scalar_values_unit:
  assumes "is_scalar cp"
  shows "scalar_values (utf16_units cp @ rest) = cp # scalar_values rest"
proof (cases "cp < 0x10000")
  case True
  then have u: "unat (code_unit cp) = cp" by (rule unat_code_unit)
  from assms have "\<not> (0xD800 \<le> cp \<and> cp \<le> 0xDFFF)" by (simp add: is_scalar_def)
  with u have plain: "\<not> is_lead (code_unit cp)" "\<not> is_trail (code_unit cp)"
    unfolding is_lead_def is_trail_def by arith+
  then have "lone (code_unit cp) = cp" by (simp add: lone_def u)
  with plain(1) True show ?thesis
    by (simp add: utf16_units_def scalar_values_not_lead)
next
  case False
  define a where "a = (cp - 0x10000) div 0x400"
  define b where "b = (cp - 0x10000) mod 0x400"
  from assms have "cp \<le> 0x10FFFF" by (simp add: is_scalar_def)
  then have "cp - 0x10000 < 0x100000" by arith
  then have a: "a < 0x400" unfolding a_def by simp
  have b: "b < 0x400" unfolding b_def by simp
  have cp: "cp = 0x10000 + a * 0x400 + b"
    using False div_mult_mod_eq [of "cp - 0x10000" "0x400"] unfolding a_def b_def by simp
  have c: "unat (code_unit (0xD800 + a)) = 0xD800 + a"
    using a by (intro unat_code_unit) simp
  have d: "unat (code_unit (0xDC00 + b)) = 0xDC00 + b"
    using b by (intro unat_code_unit) simp
  have lead: "is_lead (code_unit (0xD800 + a))"
    using a by (simp add: is_lead_def c)
  have trail: "is_trail (code_unit (0xDC00 + b))"
    using b by (simp add: is_trail_def d)
  have "pair (code_unit (0xD800 + a)) (code_unit (0xDC00 + b)) = cp"
    by (simp add: pair_def c d cp)
  with lead trail False show ?thesis
    by (simp add: utf16_units_def a_def [symmetric] b_def [symmetric])
qed

lemma scalar_values_units:
  "\<forall>cp \<in> set cps. is_scalar cp \<Longrightarrow> scalar_values (concat (map utf16_units cps)) = cps"
  by (induction cps) (simp_all add: scalar_values_unit)

lemma utf8_of_utf8_text: "utf8_text b = Some t \<Longrightarrow> utf8 t = b"
proof -
  assume "utf8_text b = Some t"
  then obtain cps where cps: "utf8_decode b = Some cps" and t: "t = concat (map utf16_units cps)"
    by (auto simp add: utf8_text_def)
  from utf8_decode_canonical [OF cps]
  have "concat (map utf8_bytes cps) = b" and "\<forall>cp \<in> set cps. is_scalar cp" by simp_all
  then show ?thesis
    by (simp add: utf8_def t scalar_values_units)
qed

section \<open>Host calls and the guard\<close>

lemma invoke_refused:
  "faults h c = Some e \<Longrightarrow> invoke c h = (Threw e, h\<lparr>calls := calls h @ [c]\<rparr>)"
  by (simp add: invoke_def Let_def)

lemma invoke_accepted:
  "faults h c = None \<Longrightarrow> invoke c h = (outcome c, effect c (h\<lparr>calls := calls h @ [c]\<rparr>))"
  by (simp add: invoke_def Let_def)

lemma invoke_completion:
  "fst (invoke c h) = (case faults h c of Some e \<Rightarrow> Threw e | None \<Rightarrow> outcome c)"
  by (simp add: invoke_def Let_def split: option.split)

lemma invoke_calls: "calls (snd (invoke c h)) = calls h @ [c]"
  by (cases c) (simp_all add: invoke_def Let_def split: option.split)

lemma invoke_faults: "faults (snd (invoke c h)) = faults h"
  by (cases c) (simp_all add: invoke_def Let_def split: option.split)

lemma invoke_performed: "performed h (snd (invoke c h)) = [c]"
  by (simp add: performed_def invoke_calls)

lemma invoke_stdout_stream:
  "stdout_stream (snd (invoke c h)) =
     (case (faults h c, c) of
        (None, Deno_stdout_writeSync b) \<Rightarrow> stdout_stream h @ [b]
      | (None, process_stdout_write s) \<Rightarrow> stdout_stream h @ [utf8 s]
      | _ \<Rightarrow> stdout_stream h)"
  by (cases c) (simp_all add: invoke_def Let_def split: option.split)

lemma invoke_stderr_stream:
  "stderr_stream (snd (invoke c h)) =
     (case (faults h c, c) of
        (None, Deno_stderr_writeSync b) \<Rightarrow> stderr_stream h @ [b]
      | (None, process_stderr_write s) \<Rightarrow> stderr_stream h @ [utf8 s]
      | _ \<Rightarrow> stderr_stream h)"
  by (cases c) (simp_all add: invoke_def Let_def split: option.split)

lemma invoke_listeners:
  "listeners (snd (invoke c h)) =
     (case (faults h c, c) of
        (None, Deno_addSignalListener n cb) \<Rightarrow> listeners h @ [(n, cb)]
      | (None, process_on n cb) \<Rightarrow> listeners h @ [(n, cb)]
      | _ \<Rightarrow> listeners h)"
  by (cases c) (simp_all add: invoke_def Let_def split: option.split)

lemma try_catch_ignore_state: "snd (try_catch_ignore body h) = snd (body h)"
  by (simp add: try_catch_ignore_def split: prod.split completion.split)

lemma try_catch_ignore_completion:
  "fst (try_catch_ignore body h) =
     (case fst (body h) of
        Threw e \<Rightarrow> Returned ()
      | Returned u \<Rightarrow> Returned u
      | Exited code \<Rightarrow> Exited code)"
  by (simp add: try_catch_ignore_def split: prod.split completion.split)

lemma restricted_writes_and_exit:
  "DenoRuntime_restricted_stdout = DenoRuntime_stdout"
  "DenoRuntime_restricted_stderr = DenoRuntime_stderr"
  "NodeRuntime_restricted_stdout = NodeRuntime_stdout"
  "NodeRuntime_restricted_stderr = NodeRuntime_stderr"
  "DenoRuntime_restricted_exit = DenoRuntime_exit"
  "NodeRuntime_restricted_exit = NodeRuntime_exit"
  "DenoRuntime_restricted_args = DenoRuntime_args"
  "NodeRuntime_restricted_args = NodeRuntime_args"
  by (simp_all add: fun_eq_iff
      DenoRuntime_restricted_stdout_def DenoRuntime_stdout_def
      DenoRuntime_restricted_stderr_def DenoRuntime_stderr_def
      NodeRuntime_restricted_stdout_def NodeRuntime_stdout_def
      NodeRuntime_restricted_stderr_def NodeRuntime_stderr_def
      DenoRuntime_restricted_exit_def DenoRuntime_exit_def
      NodeRuntime_restricted_exit_def NodeRuntime_exit_def
      DenoRuntime_restricted_args_def DenoRuntime_args_def
      NodeRuntime_restricted_args_def NodeRuntime_args_def)

lemma implementations_differ:
  "(DenoRuntime :: (signal_name, 'cb) Runtime) \<noteq> NodeRuntime"
  "(DenoRuntime_restricted :: (restricted_signal_name, 'cb) Runtime) \<noteq> NodeRuntime_restricted"
proof -
  let ?h = "started True [] [] [] refuse_none :: 'cb host"
  have "fst (stdout (DenoRuntime :: (signal_name, 'cb) Runtime) [] ?h) = Returned ()"
    by (simp add: DenoRuntime_def DenoRuntime_stdout_def invoke_completion started_def
        refuse_none_def)
  have d: "calls (snd (DenoRuntime_stdout [] ?h)) = [Deno_stdout_writeSync (TextEncoder_encode [])]"
    by (simp add: DenoRuntime_stdout_def invoke_calls started_def)
  have n: "calls (snd (NodeRuntime_stdout [] ?h)) = [process_stdout_write []]"
    by (simp add: NodeRuntime_stdout_def invoke_calls started_def)
  from d n have ne: "DenoRuntime_stdout [] ?h \<noteq> NodeRuntime_stdout [] ?h"
    by auto
  show "(DenoRuntime :: (signal_name, 'cb) Runtime) \<noteq> NodeRuntime"
  proof
    assume "(DenoRuntime :: (signal_name, 'cb) Runtime) = NodeRuntime"
    then have "stdout (DenoRuntime :: (signal_name, 'cb) Runtime) = stdout NodeRuntime"
      by (rule arg_cong)
    then have "(DenoRuntime_stdout :: js_string \<Rightarrow> 'cb host \<Rightarrow> _) = NodeRuntime_stdout"
      by (simp add: DenoRuntime_def NodeRuntime_def)
    with ne show False by simp
  qed
  show "(DenoRuntime_restricted :: (restricted_signal_name, 'cb) Runtime) \<noteq> NodeRuntime_restricted"
  proof
    assume "(DenoRuntime_restricted :: (restricted_signal_name, 'cb) Runtime) = NodeRuntime_restricted"
    then have "stdout (DenoRuntime_restricted :: (restricted_signal_name, 'cb) Runtime)
        = stdout NodeRuntime_restricted"
      by (rule arg_cong)
    then have "(DenoRuntime_stdout :: js_string \<Rightarrow> 'cb host \<Rightarrow> _) = NodeRuntime_stdout"
      by (simp add: DenoRuntime_restricted_def NodeRuntime_restricted_def
          restricted_writes_and_exit)
    with ne show False by simp
  qed
qed

section \<open>The signal guard\<close>

text \<open>
  C1, as amended. In the full build, for each of the six signal names and every callback,
  \<open>signal\<close> returns normally on every host, whatever the native registration does, in
  both classes. In the restricted build \<open>signal\<close> returns normally on every host whose
  registration primitive accepts the name.
\<close>

theorem signal_returns_normally:
  "fst (DenoRuntime_signal name cb h) = Returned () \<and>
   fst (NodeRuntime_signal name cb h) = Returned () \<and>
   (faults h (Deno_addSignalListener (restricted_signal_text rname) cb) = None \<longrightarrow>
      fst (DenoRuntime_restricted_signal rname cb h) = Returned ()) \<and>
   (faults h (process_on (restricted_signal_text rname) cb) = None \<longrightarrow>
      fst (NodeRuntime_restricted_signal rname cb h) = Returned ())"
  by (simp add: DenoRuntime_signal_def NodeRuntime_signal_def
      DenoRuntime_restricted_signal_def NodeRuntime_restricted_signal_def
      try_catch_ignore_completion invoke_completion split: option.split)

theorem signal_returns_normally_witness:
  "faults (started True [] [] [] refuse_SIGINFO :: nat host)
     (Deno_addSignalListener (restricted_signal_text Restricted_SIGTERM) 0) = None \<and>
   faults (started True [] [] [] refuse_SIGINFO :: nat host)
     (process_on (restricted_signal_text Restricted_SIGTERM) 0) = None \<and>
   fst (DenoRuntime_signal SIGINFO 0 (started True [] [] [] refuse_SIGINFO :: nat host))
     = Returned () \<and>
   fst (NodeRuntime_signal SIGINFO 0 (started True [] [] [] refuse_SIGINFO :: nat host))
     = Returned () \<and>
   fst (DenoRuntime_restricted_signal Restricted_SIGTERM 0
          (started True [] [] [] refuse_SIGINFO :: nat host)) = Returned () \<and>
   fst (NodeRuntime_restricted_signal Restricted_SIGTERM 0
          (started True [] [] [] refuse_SIGINFO :: nat host)) = Returned ()"
  using signal_returns_normally
    [of SIGINFO 0 "started True [] [] [] refuse_SIGINFO :: nat host" Restricted_SIGTERM]
  by (simp add: started_def refuse_SIGINFO_def)

text \<open>
  The restricted Deno class on a host without SIGINFO: the native error reaches the caller.
\<close>

theorem restricted_signal_throws:
  "fst (DenoRuntime_restricted_signal Restricted_SIGINFO 0
          (started True [] [] [] refuse_SIGINFO :: nat host))
     = Threw (TypeError ''Invalid signal: SIGINFO'')"
  by (simp add: DenoRuntime_restricted_signal_def invoke_completion started_def
      refuse_SIGINFO_def)

text \<open>
  C10. In the full build the guard drops every error of the native registration call, of
  whatever kind: when the host refuses the call with any error \<open>e\<close>, \<open>signal\<close> returns
  normally, and all that has happened is that the one call was made. No listener is added.
\<close>

theorem guard_swallows_every_error:
  "(faults h (Deno_addSignalListener (signal_text name) cb) = Some e \<longrightarrow>
      DenoRuntime_signal name cb h =
        (Returned (), h\<lparr>calls := calls h @ [Deno_addSignalListener (signal_text name) cb]\<rparr>)) \<and>
   (faults h (process_on (signal_text name) cb) = Some e \<longrightarrow>
      NodeRuntime_signal name cb h =
        (Returned (), h\<lparr>calls := calls h @ [process_on (signal_text name) cb]\<rparr>))"
  by (simp add: DenoRuntime_signal_def NodeRuntime_signal_def try_catch_ignore_def
      invoke_refused)

theorem guard_swallows_every_error_witness:
  "faults (started False [] [] [] (refuse_all (Error ''out of memory'')) :: nat host)
     (Deno_addSignalListener (signal_text SIGINT) 0) = Some (Error ''out of memory'') \<and>
   faults (started False [] [] [] (refuse_all (Error ''out of memory'')) :: nat host)
     (process_on (signal_text SIGINT) 0) = Some (Error ''out of memory'') \<and>
   fst (DenoRuntime_signal SIGINT 0
          (started False [] [] [] (refuse_all (Error ''out of memory'')) :: nat host))
     = Returned () \<and>
   listeners (snd (DenoRuntime_signal SIGINT 0
          (started False [] [] [] (refuse_all (Error ''out of memory'')) :: nat host))) = [] \<and>
   fst (NodeRuntime_signal SIGINT 0
          (started False [] [] [] (refuse_all (Error ''out of memory'')) :: nat host))
     = Returned () \<and>
   listeners (snd (NodeRuntime_signal SIGINT 0
          (started False [] [] [] (refuse_all (Error ''out of memory'')) :: nat host))) = []"
  using guard_swallows_every_error
    [of "started False [] [] [] (refuse_all (Error ''out of memory'')) :: nat host"
        SIGINT 0 "Error ''out of memory''"]
  by (simp add: started_def refuse_all_def)

text \<open>
  C5, as amended. On a host whose registration primitive accepts the name for both
  callbacks, \<open>signal name cb1\<close> followed by \<open>signal name cb2\<close> leaves both in the registry,
  in that order, behind everything that was registered before: the second neither replaces
  nor removes the first. This holds for both classes of both builds. On every host, the
  two calls of the full build keep what was registered before.
\<close>

theorem both_registrations_retained:
  "(faults h (Deno_addSignalListener (signal_text name) cb1) = None \<and>
    faults h (Deno_addSignalListener (signal_text name) cb2) = None \<longrightarrow>
      listeners (snd (DenoRuntime_signal name cb2 (snd (DenoRuntime_signal name cb1 h)))) =
        listeners h @ [(signal_text name, cb1), (signal_text name, cb2)]) \<and>
   (faults h (process_on (signal_text name) cb1) = None \<and>
    faults h (process_on (signal_text name) cb2) = None \<longrightarrow>
      listeners (snd (NodeRuntime_signal name cb2 (snd (NodeRuntime_signal name cb1 h)))) =
        listeners h @ [(signal_text name, cb1), (signal_text name, cb2)]) \<and>
   (faults h (Deno_addSignalListener (restricted_signal_text rname) cb1) = None \<and>
    faults h (Deno_addSignalListener (restricted_signal_text rname) cb2) = None \<longrightarrow>
      listeners (snd (DenoRuntime_restricted_signal rname cb2
                   (snd (DenoRuntime_restricted_signal rname cb1 h)))) =
        listeners h @ [(restricted_signal_text rname, cb1), (restricted_signal_text rname, cb2)]) \<and>
   (faults h (process_on (restricted_signal_text rname) cb1) = None \<and>
    faults h (process_on (restricted_signal_text rname) cb2) = None \<longrightarrow>
      listeners (snd (NodeRuntime_restricted_signal rname cb2
                   (snd (NodeRuntime_restricted_signal rname cb1 h)))) =
        listeners h @ [(restricted_signal_text rname, cb1), (restricted_signal_text rname, cb2)]) \<and>
   take (length (listeners h))
     (listeners (snd (DenoRuntime_signal name cb2 (snd (DenoRuntime_signal name cb1 h)))))
     = listeners h \<and>
   take (length (listeners h))
     (listeners (snd (NodeRuntime_signal name cb2 (snd (NodeRuntime_signal name cb1 h)))))
     = listeners h"
  by (simp add: DenoRuntime_signal_def NodeRuntime_signal_def
      DenoRuntime_restricted_signal_def NodeRuntime_restricted_signal_def
      try_catch_ignore_state invoke_listeners invoke_faults split: option.split)

theorem both_registrations_retained_witness:
  "faults (started True [] [] [] refuse_SIGINFO :: nat host)
     (Deno_addSignalListener (signal_text SIGUSR1) 1) = None \<and>
   faults (started True [] [] [] refuse_SIGINFO :: nat host)
     (Deno_addSignalListener (signal_text SIGUSR1) 2) = None \<and>
   faults (started True [] [] [] refuse_SIGINFO :: nat host)
     (process_on (signal_text SIGUSR1) 1) = None \<and>
   faults (started True [] [] [] refuse_SIGINFO :: nat host)
     (process_on (signal_text SIGUSR1) 2) = None \<and>
   faults (started True [] [] [] refuse_SIGINFO :: nat host)
     (Deno_addSignalListener (restricted_signal_text Restricted_SIGTERM) 1) = None \<and>
   faults (started True [] [] [] refuse_SIGINFO :: nat host)
     (Deno_addSignalListener (restricted_signal_text Restricted_SIGTERM) 2) = None \<and>
   faults (started True [] [] [] refuse_SIGINFO :: nat host)
     (process_on (restricted_signal_text Restricted_SIGTERM) 1) = None \<and>
   faults (started True [] [] [] refuse_SIGINFO :: nat host)
     (process_on (restricted_signal_text Restricted_SIGTERM) 2) = None \<and>
   listeners (snd (DenoRuntime_signal SIGUSR1 2 (snd (DenoRuntime_signal SIGUSR1 1
     (started True [] [] [] refuse_SIGINFO :: nat host))))) = [(''SIGUSR1'', 1), (''SIGUSR1'', 2)] \<and>
   listeners (snd (NodeRuntime_signal SIGUSR1 2 (snd (NodeRuntime_signal SIGUSR1 1
     (started True [] [] [] refuse_SIGINFO :: nat host))))) = [(''SIGUSR1'', 1), (''SIGUSR1'', 2)] \<and>
   listeners (snd (DenoRuntime_restricted_signal Restricted_SIGTERM 2
     (snd (DenoRuntime_restricted_signal Restricted_SIGTERM 1
       (started True [] [] [] refuse_SIGINFO :: nat host))))) = [(''SIGTERM'', 1), (''SIGTERM'', 2)] \<and>
   listeners (snd (NodeRuntime_restricted_signal Restricted_SIGTERM 2
     (snd (NodeRuntime_restricted_signal Restricted_SIGTERM 1
       (started True [] [] [] refuse_SIGINFO :: nat host))))) = [(''SIGTERM'', 1), (''SIGTERM'', 2)]"
  using both_registrations_retained
    [of "started True [] [] [] refuse_SIGINFO :: nat host" SIGUSR1 1 2 Restricted_SIGTERM]
  by (simp add: started_def refuse_SIGINFO_def)

text \<open>
  On a host without SIGINFO the full Deno class returns normally from both registrations of
  SIGINFO and the registry holds neither callback.
\<close>

theorem unsupported_signal_retains_nothing:
  "listeners (snd (DenoRuntime_signal SIGINFO 2 (snd (DenoRuntime_signal SIGINFO 1
     (started True [] [] [] refuse_SIGINFO :: nat host))))) = []"
  by (simp add: DenoRuntime_signal_def try_catch_ignore_state invoke_listeners invoke_faults
      started_def refuse_SIGINFO_def)

section \<open>Selecting the implementation\<close>

text \<open>
  C2. \<open>getRuntime\<close> returns the Deno class exactly when \<open>globalThis.Deno\<close> is present and
  the Node class exactly when it is absent, in both builds, and the two classes are not
  the same handle. Nothing but the marker decides: any host with the same marker gets the
  same handle.
\<close>

theorem getRuntime_selects_by_marker:
  "(fst (getRuntime h) = Returned DenoRuntime \<longleftrightarrow> globalThis_Deno h) \<and>
   (fst (getRuntime h) = Returned NodeRuntime \<longleftrightarrow> \<not> globalThis_Deno h) \<and>
   (fst (getRuntime_restricted h) = Returned DenoRuntime_restricted \<longleftrightarrow> globalThis_Deno h) \<and>
   (fst (getRuntime_restricted h) = Returned NodeRuntime_restricted \<longleftrightarrow> \<not> globalThis_Deno h) \<and>
   fst (getRuntime (h'\<lparr>globalThis_Deno := globalThis_Deno h\<rparr>)) = fst (getRuntime h) \<and>
   fst (getRuntime_restricted (h'\<lparr>globalThis_Deno := globalThis_Deno h\<rparr>))
     = fst (getRuntime_restricted h)"
  using implementations_differ [where 'cb = 'a]
  by (auto simp add: getRuntime_def getRuntime_restricted_def)

text \<open>
  C9. \<open>getRuntime\<close> is a function of the host that leaves the host as it found it: no
  primitive is called, so no signal is registered and nothing is written, and the handle
  it returns does not depend on the argument vectors, nor on anything else but the marker.
  The same holds for the restricted build.
\<close>

theorem getRuntime_has_no_effect:
  "snd (getRuntime h) = h \<and>
   performed h (snd (getRuntime h)) = [] \<and>
   listeners (snd (getRuntime h)) = listeners h \<and>
   stdout_stream (snd (getRuntime h)) = stdout_stream h \<and>
   stderr_stream (snd (getRuntime h)) = stderr_stream h \<and>
   fst (getRuntime (h\<lparr>Deno_args := a, process_argv := v\<rparr>)) = fst (getRuntime h) \<and>
   snd (getRuntime_restricted h) = h \<and>
   performed h (snd (getRuntime_restricted h)) = [] \<and>
   fst (getRuntime_restricted (h\<lparr>Deno_args := a, process_argv := v\<rparr>))
     = fst (getRuntime_restricted h)"
  by (simp add: getRuntime_def getRuntime_restricted_def performed_def)

section \<open>The vocabularies\<close>

text \<open>
  C7. The names the full build's \<open>signal\<close> takes are exactly the six strings SIGINT,
  SIGTERM, SIGHUP, SIGUSR1, SIGUSR2 and SIGINFO; the names the restricted build's \<open>signal\<close>
  takes are exactly the two strings SIGTERM and SIGINFO.
\<close>

theorem signal_vocabularies:
  "range signal_text =
     {''SIGINT'', ''SIGTERM'', ''SIGHUP'', ''SIGUSR1'', ''SIGUSR2'', ''SIGINFO''} \<and>
   range restricted_signal_text = {''SIGTERM'', ''SIGINFO''}"
proof -
  have full: "(UNIV :: signal_name set) = {SIGINT, SIGTERM, SIGHUP, SIGUSR1, SIGUSR2, SIGINFO}"
    using signal_name.exhaust by auto
  have restricted: "(UNIV :: restricted_signal_name set) = {Restricted_SIGTERM, Restricted_SIGINFO}"
    using restricted_signal_name.exhaust by auto
  show ?thesis unfolding full restricted by simp
qed

section \<open>Arguments\<close>

text \<open>
  C4, as amended. For a launch with a script file, where the Node vector is the
  executable, the script path and then the user's arguments, the Node \<open>args\<close> returns
  exactly the user's arguments, in their order, and the empty sequence when there are
  none. The Deno \<open>args\<close> returns exactly the user's arguments that the host gives as
  \<^verbatim>\<open>Deno.args\<close>. On every host \<open>args\<close> returns a sequence and changes nothing; for Node it
  is the vector without its first two entries, whatever they are.
\<close>

theorem args_of_a_launch:
  "(process_argv h = node_argv l \<and> scriptPath l = Some path \<longrightarrow>
      NodeRuntime_args h = (Returned (userArgs l), h) \<and>
      NodeRuntime_restricted_args h = (Returned (userArgs l), h)) \<and>
   (process_argv h = node_argv l \<and> scriptPath l = Some path \<and> userArgs l = [] \<longrightarrow>
      NodeRuntime_args h = (Returned [], h) \<and>
      NodeRuntime_restricted_args h = (Returned [], h)) \<and>
   (Deno_args h = userArgs l \<longrightarrow>
      DenoRuntime_args h = (Returned (userArgs l), h) \<and>
      DenoRuntime_restricted_args h = (Returned (userArgs l), h)) \<and>
   NodeRuntime_args h = (Returned (drop 2 (process_argv h)), h) \<and>
   NodeRuntime_restricted_args h = (Returned (drop 2 (process_argv h)), h) \<and>
   DenoRuntime_args h = (Returned (Deno_args h), h) \<and>
   DenoRuntime_restricted_args h = (Returned (Deno_args h), h)"
  by (auto simp add: NodeRuntime_args_def NodeRuntime_restricted_args_def DenoRuntime_args_def
      DenoRuntime_restricted_args_def node_argv_def)

theorem args_of_a_launch_witness:
  "process_argv
     (launched False \<lparr>execPath = [0x6E], scriptPath = Some [0x6D], userArgs = [[0x61], [0x62]]\<rparr>
        refuse_none :: nat host)
     = node_argv \<lparr>execPath = [0x6E], scriptPath = Some [0x6D], userArgs = [[0x61], [0x62]]\<rparr> \<and>
   scriptPath \<lparr>execPath = [0x6E], scriptPath = Some [0x6D], userArgs = [[0x61], [0x62]]\<rparr>
     = Some [0x6D] \<and>
   fst (NodeRuntime_args
     (launched False \<lparr>execPath = [0x6E], scriptPath = Some [0x6D], userArgs = [[0x61], [0x62]]\<rparr>
        refuse_none :: nat host)) = Returned [[0x61], [0x62]] \<and>
   userArgs \<lparr>execPath = [0x6E], scriptPath = Some [0x6D], userArgs = []\<rparr> = [] \<and>
   fst (NodeRuntime_args
     (launched False \<lparr>execPath = [0x6E], scriptPath = Some [0x6D], userArgs = []\<rparr>
        refuse_none :: nat host)) = Returned [] \<and>
   Deno_args
     (launched True \<lparr>execPath = [0x64], scriptPath = None, userArgs = [[0x61], [0x62]]\<rparr>
        refuse_none :: nat host) = [[0x61], [0x62]] \<and>
   fst (DenoRuntime_args
     (launched True \<lparr>execPath = [0x64], scriptPath = None, userArgs = [[0x61], [0x62]]\<rparr>
        refuse_none :: nat host)) = Returned [[0x61], [0x62]]"
  using
    args_of_a_launch
      [of "launched False \<lparr>execPath = [0x6E], scriptPath = Some [0x6D], userArgs = [[0x61], [0x62]]\<rparr>
             refuse_none :: nat host"
          "\<lparr>execPath = [0x6E], scriptPath = Some [0x6D], userArgs = [[0x61], [0x62]]\<rparr>" "[0x6D]"]
    args_of_a_launch
      [of "launched False \<lparr>execPath = [0x6E], scriptPath = Some [0x6D], userArgs = []\<rparr>
             refuse_none :: nat host"
          "\<lparr>execPath = [0x6E], scriptPath = Some [0x6D], userArgs = []\<rparr>" "[0x6D]"]
    args_of_a_launch
      [of "launched True \<lparr>execPath = [0x64], scriptPath = None, userArgs = [[0x61], [0x62]]\<rparr>
             refuse_none :: nat host"
          "\<lparr>execPath = [0x64], scriptPath = None, userArgs = [[0x61], [0x62]]\<rparr>" "[]"]
  by (simp add: launched_def)

text \<open>
  Node started without a script file (\<^verbatim>\<open>node -e\<close>) and with the user's arguments \<^verbatim>\<open>a\<close> and
  \<^verbatim>\<open>b\<close>: the vector is the executable, \<^verbatim>\<open>a\<close>, \<^verbatim>\<open>b\<close>, and \<open>args\<close> returns \<^verbatim>\<open>b\<close> alone.
\<close>

theorem node_without_script_loses_an_argument:
  "userArgs \<lparr>execPath = [0x6E], scriptPath = None, userArgs = [[0x61], [0x62]]\<rparr>
     = [[0x61], [0x62]] \<and>
   process_argv
     (launched False \<lparr>execPath = [0x6E], scriptPath = None, userArgs = [[0x61], [0x62]]\<rparr>
        refuse_none :: nat host) = [[0x6E], [0x61], [0x62]] \<and>
   fst (NodeRuntime_args
     (launched False \<lparr>execPath = [0x6E], scriptPath = None, userArgs = [[0x61], [0x62]]\<rparr>
        refuse_none :: nat host)) = Returned [[0x62]] \<and>
   fst (NodeRuntime_restricted_args
     (launched False \<lparr>execPath = [0x6E], scriptPath = None, userArgs = [[0x61], [0x62]]\<rparr>
        refuse_none :: nat host)) = Returned [[0x62]]"
  by (simp add: NodeRuntime_args_def NodeRuntime_restricted_args_def launched_def node_argv_def)



section \<open>Failures of the host\<close>

text \<open>
  C6. Outside \<open>signal\<close> nothing is caught. When the host refuses the write of \<open>stdout\<close> or
  \<open>stderr\<close>, or the call of \<open>exit\<close>, with an error \<open>e\<close>, the operation throws that same
  \<open>e\<close> after exactly that one call: no retry, no other error in its place. This holds for
  both classes of both builds. \<open>args\<close> calls no primitive that can raise and always
  returns.
\<close>

theorem host_failures_propagate:
  "(faults h (Deno_stdout_writeSync (TextEncoder_encode s)) = Some e \<longrightarrow>
      DenoRuntime_stdout s h =
        (Threw e, h\<lparr>calls := calls h @ [Deno_stdout_writeSync (TextEncoder_encode s)]\<rparr>) \<and>
      DenoRuntime_restricted_stdout s h =
        (Threw e, h\<lparr>calls := calls h @ [Deno_stdout_writeSync (TextEncoder_encode s)]\<rparr>)) \<and>
   (faults h (Deno_stderr_writeSync (TextEncoder_encode s)) = Some e \<longrightarrow>
      DenoRuntime_stderr s h =
        (Threw e, h\<lparr>calls := calls h @ [Deno_stderr_writeSync (TextEncoder_encode s)]\<rparr>) \<and>
      DenoRuntime_restricted_stderr s h =
        (Threw e, h\<lparr>calls := calls h @ [Deno_stderr_writeSync (TextEncoder_encode s)]\<rparr>)) \<and>
   (faults h (Deno_exit code) = Some e \<longrightarrow>
      DenoRuntime_exit code h = (Threw e, h\<lparr>calls := calls h @ [Deno_exit code]\<rparr>) \<and>
      DenoRuntime_restricted_exit code h = (Threw e, h\<lparr>calls := calls h @ [Deno_exit code]\<rparr>)) \<and>
   (faults h (process_stdout_write s) = Some e \<longrightarrow>
      NodeRuntime_stdout s h = (Threw e, h\<lparr>calls := calls h @ [process_stdout_write s]\<rparr>) \<and>
      NodeRuntime_restricted_stdout s h =
        (Threw e, h\<lparr>calls := calls h @ [process_stdout_write s]\<rparr>)) \<and>
   (faults h (process_stderr_write s) = Some e \<longrightarrow>
      NodeRuntime_stderr s h = (Threw e, h\<lparr>calls := calls h @ [process_stderr_write s]\<rparr>) \<and>
      NodeRuntime_restricted_stderr s h =
        (Threw e, h\<lparr>calls := calls h @ [process_stderr_write s]\<rparr>)) \<and>
   (faults h (process_exit code) = Some e \<longrightarrow>
      NodeRuntime_exit code h = (Threw e, h\<lparr>calls := calls h @ [process_exit code]\<rparr>) \<and>
      NodeRuntime_restricted_exit code h =
        (Threw e, h\<lparr>calls := calls h @ [process_exit code]\<rparr>)) \<and>
   fst (DenoRuntime_args h) = Returned (Deno_args h) \<and>
   fst (NodeRuntime_args h) = Returned (drop 2 (process_argv h)) \<and>
   fst (DenoRuntime_restricted_args h) = Returned (Deno_args h) \<and>
   fst (NodeRuntime_restricted_args h) = Returned (drop 2 (process_argv h))"
  unfolding restricted_writes_and_exit
  by (simp add: DenoRuntime_stdout_def DenoRuntime_stderr_def DenoRuntime_exit_def
      NodeRuntime_stdout_def NodeRuntime_stderr_def NodeRuntime_exit_def
      DenoRuntime_args_def NodeRuntime_args_def invoke_refused)

theorem host_failures_propagate_witness:
  "faults (started True [] [] [] (refuse_all (Error ''EPIPE'')) :: nat host)
     (Deno_stdout_writeSync (TextEncoder_encode hello)) = Some (Error ''EPIPE'') \<and>
   faults (started True [] [] [] (refuse_all (Error ''EPIPE'')) :: nat host)
     (Deno_stderr_writeSync (TextEncoder_encode hello)) = Some (Error ''EPIPE'') \<and>
   faults (started True [] [] [] (refuse_all (Error ''EPIPE'')) :: nat host)
     (Deno_exit 1) = Some (Error ''EPIPE'') \<and>
   faults (started True [] [] [] (refuse_all (Error ''EPIPE'')) :: nat host)
     (process_stdout_write hello) = Some (Error ''EPIPE'') \<and>
   faults (started True [] [] [] (refuse_all (Error ''EPIPE'')) :: nat host)
     (process_stderr_write hello) = Some (Error ''EPIPE'') \<and>
   faults (started True [] [] [] (refuse_all (Error ''EPIPE'')) :: nat host)
     (process_exit 1) = Some (Error ''EPIPE'') \<and>
   fst (DenoRuntime_stdout hello (started True [] [] [] (refuse_all (Error ''EPIPE'')) :: nat host))
     = Threw (Error ''EPIPE'') \<and>
   fst (DenoRuntime_stderr hello (started True [] [] [] (refuse_all (Error ''EPIPE'')) :: nat host))
     = Threw (Error ''EPIPE'') \<and>
   fst (DenoRuntime_exit 1 (started True [] [] [] (refuse_all (Error ''EPIPE'')) :: nat host))
     = Threw (Error ''EPIPE'') \<and>
   fst (NodeRuntime_stdout hello (started True [] [] [] (refuse_all (Error ''EPIPE'')) :: nat host))
     = Threw (Error ''EPIPE'') \<and>
   fst (NodeRuntime_stderr hello (started True [] [] [] (refuse_all (Error ''EPIPE'')) :: nat host))
     = Threw (Error ''EPIPE'') \<and>
   fst (NodeRuntime_exit 1 (started True [] [] [] (refuse_all (Error ''EPIPE'')) :: nat host))
     = Threw (Error ''EPIPE'')"
  using host_failures_propagate
    [of "started True [] [] [] (refuse_all (Error ''EPIPE'')) :: nat host" hello
        "Error ''EPIPE''" 1]
  by (simp add: started_def refuse_all_def)

section \<open>Writing\<close>

text \<open>
  C3, as amended. For every string \<open>s\<close>, \<open>stdout s\<close> makes exactly one call into the host,
  a write to standard output, and \<open>stderr s\<close> exactly one, a write to standard error; the
  Deno classes pass the bytes \<open>TextEncoder_encode s\<close>, the Node classes pass \<open>s\<close>. When the
  host accepts the write, the stream gains exactly one entry, the UTF-8 bytes of \<open>s\<close>, and
  the other stream is unchanged. These bytes spell \<open>s\<close> with every unpaired surrogate
  code unit replaced by U+FFFD, and no other bytes spell that text; so what is written
  equals \<open>s\<close> exactly, nothing added, removed or escaped, if and only if \<open>s\<close> is well
  formed, which the empty string and strings with characters of several bytes are. The
  restricted build writes as the full build does.
\<close>

theorem one_exact_write:
  "performed h (snd (DenoRuntime_stdout s h)) = [Deno_stdout_writeSync (TextEncoder_encode s)] \<and>
   performed h (snd (DenoRuntime_stderr s h)) = [Deno_stderr_writeSync (TextEncoder_encode s)] \<and>
   performed h (snd (NodeRuntime_stdout s h)) = [process_stdout_write s] \<and>
   performed h (snd (NodeRuntime_stderr s h)) = [process_stderr_write s] \<and>
   (faults h (Deno_stdout_writeSync (TextEncoder_encode s)) = None \<longrightarrow>
      stdout_stream (snd (DenoRuntime_stdout s h)) = stdout_stream h @ [utf8 s]) \<and>
   (faults h (Deno_stderr_writeSync (TextEncoder_encode s)) = None \<longrightarrow>
      stderr_stream (snd (DenoRuntime_stderr s h)) = stderr_stream h @ [utf8 s]) \<and>
   (faults h (process_stdout_write s) = None \<longrightarrow>
      stdout_stream (snd (NodeRuntime_stdout s h)) = stdout_stream h @ [utf8 s]) \<and>
   (faults h (process_stderr_write s) = None \<longrightarrow>
      stderr_stream (snd (NodeRuntime_stderr s h)) = stderr_stream h @ [utf8 s]) \<and>
   stderr_stream (snd (DenoRuntime_stdout s h)) = stderr_stream h \<and>
   stdout_stream (snd (DenoRuntime_stderr s h)) = stdout_stream h \<and>
   stderr_stream (snd (NodeRuntime_stdout s h)) = stderr_stream h \<and>
   stdout_stream (snd (NodeRuntime_stderr s h)) = stdout_stream h \<and>
   utf8_text (utf8 s) = Some (replace_unpaired s) \<and>
   (utf8_text b = Some (replace_unpaired s) \<longrightarrow> b = utf8 s) \<and>
   (utf8_text (utf8 s) = Some s \<longleftrightarrow> well_formed s) \<and>
   (well_formed s \<longrightarrow> utf8_text (utf8 s) = Some s) \<and>
   DenoRuntime_restricted_stdout s h = DenoRuntime_stdout s h \<and>
   DenoRuntime_restricted_stderr s h = DenoRuntime_stderr s h \<and>
   NodeRuntime_restricted_stdout s h = NodeRuntime_stdout s h \<and>
   NodeRuntime_restricted_stderr s h = NodeRuntime_stderr s h"
proof -
  have again: "utf8 (replace_unpaired s) = utf8 s"
    using utf8_of_utf8_text [OF utf8_text_utf8 [of s]] .
  have only: "utf8_text b = Some (replace_unpaired s) \<longrightarrow> b = utf8 s"
    using utf8_of_utf8_text [of b "replace_unpaired s"] again by auto
  have exact: "utf8_text (utf8 s) = Some s \<longleftrightarrow> well_formed s"
    by (simp add: utf8_text_utf8 replace_unpaired_fixed)
  show ?thesis
    unfolding restricted_writes_and_exit
    using only exact
    by (simp add: DenoRuntime_stdout_def DenoRuntime_stderr_def NodeRuntime_stdout_def
        NodeRuntime_stderr_def TextEncoder_encode_def invoke_performed invoke_stdout_stream
        invoke_stderr_stream utf8_text_utf8 split: option.split)
qed

lemma hello_well_formed: "well_formed hello"
  by (simp add: hello_def is_lead_def is_trail_def)

lemma hello_bytes:
  "utf8 hello =
     [0x48, 0x65, 0x6C, 0x6C, 0x6F, 0x20, 0xE4, 0xB8, 0x96, 0xE7, 0x95, 0x8C, 0x20,
      0xF0, 0x9F, 0x8C, 0x8D, 0x0A]"
  by (simp add: hello_def utf8_def is_lead_def is_trail_def lone_def pair_def
      utf8_bytes_def byte_def)

theorem one_exact_write_witness:
  "well_formed hello \<and>
   faults (started True [] [] [] refuse_none :: nat host)
     (Deno_stdout_writeSync (TextEncoder_encode hello)) = None \<and>
   faults (started True [] [] [] refuse_none :: nat host)
     (Deno_stderr_writeSync (TextEncoder_encode hello)) = None \<and>
   faults (started True [] [] [] refuse_none :: nat host) (process_stdout_write hello) = None \<and>
   faults (started True [] [] [] refuse_none :: nat host) (process_stderr_write hello) = None \<and>
   utf8_text (utf8 hello) = Some (replace_unpaired hello) \<and>
   utf8 hello =
     [0x48, 0x65, 0x6C, 0x6C, 0x6F, 0x20, 0xE4, 0xB8, 0x96, 0xE7, 0x95, 0x8C, 0x20,
      0xF0, 0x9F, 0x8C, 0x8D, 0x0A] \<and>
   stdout_stream (snd (DenoRuntime_stdout hello (started True [] [] [] refuse_none :: nat host)))
     = [utf8 hello] \<and>
   stderr_stream (snd (DenoRuntime_stderr hello (started True [] [] [] refuse_none :: nat host)))
     = [utf8 hello] \<and>
   stdout_stream (snd (NodeRuntime_stdout hello (started True [] [] [] refuse_none :: nat host)))
     = [utf8 hello] \<and>
   stderr_stream (snd (NodeRuntime_stderr hello (started True [] [] [] refuse_none :: nat host)))
     = [utf8 hello] \<and>
   utf8_text (utf8 hello) = Some hello"
proof -
  let ?h = "started True [] [] [] refuse_none :: nat host"
  have accepted: "faults ?h c = None" for c
    by (simp add: started_def refuse_none_def)
  have empty: "stdout_stream ?h = []" "stderr_stream ?h = []"
    by (simp_all add: started_def)
  have streams:
    "stdout_stream (snd (DenoRuntime_stdout hello ?h)) = [utf8 hello]"
    "stderr_stream (snd (DenoRuntime_stderr hello ?h)) = [utf8 hello]"
    "stdout_stream (snd (NodeRuntime_stdout hello ?h)) = [utf8 hello]"
    "stderr_stream (snd (NodeRuntime_stderr hello ?h)) = [utf8 hello]"
    using one_exact_write [of ?h hello "utf8 hello"]
    unfolding accepted empty by simp_all
  have reads: "utf8_text (utf8 hello) = Some (replace_unpaired hello)"
    and exact: "well_formed hello \<longrightarrow> utf8_text (utf8 hello) = Some hello"
    using one_exact_write [of ?h hello "utf8 hello"] by blast+
  from streams reads exact hello_well_formed hello_bytes accepted show ?thesis
    by simp
qed

text \<open>
  Strings with a surrogate outside a pair, a lead one and a trail one: both classes put
  the three bytes of U+FFFD, the replacement character, on the stream, and these bytes do
  not spell the string that was passed.
\<close>

theorem lone_surrogate_is_replaced:
  "stdout_stream (snd (DenoRuntime_stdout [0xD800] (started True [] [] [] refuse_none :: nat host)))
     = [[0xEF, 0xBF, 0xBD]] \<and>
   stdout_stream (snd (NodeRuntime_stdout [0xD800] (started False [] [] [] refuse_none :: nat host)))
     = [[0xEF, 0xBF, 0xBD]] \<and>
   stdout_stream (snd (DenoRuntime_stdout [0xDC00] (started True [] [] [] refuse_none :: nat host)))
     = [[0xEF, 0xBF, 0xBD]] \<and>
   utf8_text [0xEF, 0xBF, 0xBD] = Some [0xFFFD] \<and>
   [0xFFFD] \<noteq> ([0xD800] :: js_string) \<and>
   [0xFFFD] \<noteq> ([0xDC00] :: js_string)"
  by (simp add: DenoRuntime_stdout_def NodeRuntime_stdout_def invoke_stdout_stream started_def
      refuse_none_def TextEncoder_encode_def utf8_def is_lead_def is_trail_def lone_def
      utf8_bytes_def byte_def utf8_text_def continuation_def admit_def is_scalar_def
      utf16_units_def code_unit_def)

text \<open>
  The reader takes no overlong form and no encoded surrogate.
\<close>

lemma reader_is_strict:
  "utf8_text [0xC1, 0x88] = None"
  "utf8_text [0xED, 0xA0, 0x80] = None"
  "utf8_text [0xF4, 0x90, 0x80, 0x80] = None"
  "utf8_text [0x80] = None"
  by (simp_all add: utf8_text_def continuation_def admit_def is_scalar_def)

end
